theory Spec2Isabelle
  imports Main "HOL-Library.Sublist"
begin

section \<open>Errors\<close>

text \<open>
  What the operations can raise: \<^verbatim>\<open>sqlalchemy.exc.IntegrityError\<close> from a commit that
  violates a declared constraint, \<^verbatim>\<open>sqlalchemy.exc.DataError\<close> from a value that does
  not fit its column, \<^verbatim>\<open>sqlalchemy.exc.ProgrammingError\<close> from a query the engine
  rejects, Python's \<^verbatim>\<open>AttributeError\<close> from an attribute access on \<^verbatim>\<open>None\<close>,
  Python's \<^verbatim>\<open>OverflowError\<close> from date arithmetic past the last date, and the
  \<^verbatim>\<open>HTTPException(status_code=...)\<close> of the routes.
\<close>

datatype error =
  IntegrityError | DataError | ProgrammingError | AttributeError | OverflowError
  | HTTPException nat


section \<open>Calendar dates\<close>

text \<open>
  \<^verbatim>\<open>datetime.date\<close> as the repository uses it: \<^verbatim>\<open>date.today()\<close>, the fields
  \<^verbatim>\<open>.month\<close> and \<^verbatim>\<open>.day\<close>, and \<^verbatim>\<open>today + timedelta(days=7)\<close>.
  A date is a triple in the proleptic Gregorian calendar, with a year from
  \<^verbatim>\<open>MINYEAR = 1\<close> to \<^verbatim>\<open>MAXYEAR = 9999\<close>.
\<close>

record date =
  year :: nat
  month :: nat
  day :: nat

definition is_leap :: "nat \<Rightarrow> bool" where
  "is_leap y = (y mod 4 = 0 \<and> (y mod 100 \<noteq> 0 \<or> y mod 400 = 0))"

definition days_in_month :: "nat \<Rightarrow> nat \<Rightarrow> nat" where
  "days_in_month y m =
     (if m = 2 then (if is_leap y then 29 else 28)
      else if m = 4 \<or> m = 6 \<or> m = 9 \<or> m = 11 then 30
      else 31)"

definition MAXYEAR :: nat where
  "MAXYEAR = 9999"

definition valid_date :: "date \<Rightarrow> bool" where
  "valid_date d =
     (1 \<le> year d \<and> year d \<le> MAXYEAR \<and> 1 \<le> month d \<and> month d \<le> 12 \<and>
      1 \<le> day d \<and> day d \<le> days_in_month (year d) (month d))"

definition tomorrow :: "date \<Rightarrow> date" where
  "tomorrow d =
     (if day d < days_in_month (year d) (month d) then d\<lparr>day := day d + 1\<rparr>
      else if month d < 12 then d\<lparr>month := month d + 1, day := 1\<rparr>
      else d\<lparr>year := year d + 1, month := 1, day := 1\<rparr>)"

text \<open>The calendar day \<open>n\<close> days after \<open>d\<close>: \<open>n\<close> steps to the following day.\<close>

fun days_after :: "date \<Rightarrow> nat \<Rightarrow> date" where
  "days_after d 0 = d"
| "days_after d (Suc n) = days_after (tomorrow d) n"

text \<open>
  \<^verbatim>\<open>d + timedelta(days=n)\<close> for \<open>n \<ge> 0\<close>: the day \<open>n\<close> days after \<open>d\<close>, or
  \<^verbatim>\<open>OverflowError\<close> when that day is past the 31st of December of \<^verbatim>\<open>MAXYEAR\<close>.
\<close>

definition date_add_days :: "date \<Rightarrow> nat \<Rightarrow> error + date" where
  "date_add_days d n =
     (let r = days_after d n in if MAXYEAR < year r then Inl OverflowError else Inr r)"


section \<open>Request schemas (src/schemas.py)\<close>

text \<open>
  \<^verbatim>\<open>ContactsModel\<close> carries exactly five fields; it has neither a description nor a
  creation time. \<^verbatim>\<open>ContactsStatusUpdate\<close> carries the flag alone. \<^verbatim>\<open>UserModel\<close> carries
  username, email and password.
\<close>

record ContactsModel =
  first_name :: string
  last_name :: string
  email :: string
  phone_number :: string
  born_date :: date

record ContactsStatusUpdate =
  "done" :: bool

record UserModel =
  username :: string
  email :: string
  password :: string


section \<open>Tables (src/database/models.py)\<close>

type_synonym datetime = nat

text \<open>
  A row of \<^verbatim>\<open>users\<close>. \<^verbatim>\<open>id\<close> is the primary key, \<^verbatim>\<open>email\<close> is declared
  \<^verbatim>\<open>nullable=False, unique=True\<close>, \<^verbatim>\<open>password\<close> is \<^verbatim>\<open>nullable=False\<close>;
  \<^verbatim>\<open>created_at\<close> has \<^verbatim>\<open>default=func.now()\<close> and \<^verbatim>\<open>confirmed\<close> has \<^verbatim>\<open>default=False\<close>.
  A nullable column without a value is \<open>None\<close>. The string columns are declared
  \<^verbatim>\<open>String(50)\<close> for \<^verbatim>\<open>username\<close>, \<^verbatim>\<open>String(250)\<close> for \<^verbatim>\<open>email\<close> and
  \<^verbatim>\<open>String(255)\<close> for \<^verbatim>\<open>password\<close>, \<^verbatim>\<open>avatar\<close> and \<^verbatim>\<open>refresh_token\<close>.
\<close>

record User =
  id :: int
  username :: string
  email :: string
  password :: string
  created_at :: "datetime option"
  avatar :: "string option"
  refresh_token :: "string option"
  confirmed :: bool

text \<open>
  A row of \<^verbatim>\<open>contacts\<close>. \<^verbatim>\<open>id\<close> is the primary key; \<^verbatim>\<open>first_name\<close>, \<^verbatim>\<open>last_name\<close>,
  \<^verbatim>\<open>phone_number\<close>, \<^verbatim>\<open>born_date\<close>, \<^verbatim>\<open>email\<close> and \<^verbatim>\<open>created_at\<close> are declared
  \<^verbatim>\<open>nullable=False\<close>; \<^verbatim>\<open>created_at\<close> has no default; \<^verbatim>\<open>done\<close> has \<^verbatim>\<open>default=False\<close>;
  \<^verbatim>\<open>user_id\<close> is a nullable foreign key with \<^verbatim>\<open>default=None\<close>.
  \<^verbatim>\<open>born_date\<close> is declared \<^verbatim>\<open>String(100)\<close> and holds the ISO text of the
  \<^verbatim>\<open>date\<close> the request body carried; it is kept here as that date, and what
  \<^verbatim>\<open>extract\<close> makes of the string column is said where the birthday list is defined.
  \<^verbatim>\<open>phone_number\<close> is kept as the string of the body.
\<close>

record Contacts =
  id :: int
  first_name :: string
  last_name :: string
  phone_number :: string
  born_date :: date
  email :: string
  description :: "string option"
  created_at :: "datetime option"
  "done" :: bool
  user_id :: "int option"

text \<open>
  The engine a session is bound to. It is configured outside the repository layer;
  the two engines differ where the operations below say so: PostgreSQL enforces the
  declared lengths of the string columns and has no \<^verbatim>\<open>extract\<close> on a string column,
  SQLite stores strings of any length and reads the month and the day off the ISO text
  of a date.
\<close>

datatype dialect = SQLite | PostgreSQL

text \<open>
  The database behind a \<^verbatim>\<open>Session\<close>: its engine and both tables, rows in the
  store's order.
\<close>

record Session =
  dialect :: dialect
  contacts :: "Contacts list"
  users :: "User list"

text \<open>
  The constraints the tables declare: primary keys are unique, and so is
  \<^verbatim>\<open>users.email\<close>.
\<close>

definition wf_db :: "Session \<Rightarrow> bool" where
  "wf_db db =
     (distinct (map Contacts.id (contacts db)) \<and>
      distinct (map User.id (users db)) \<and>
      distinct (map User.email (users db)))"

text \<open>\<^verbatim>\<open>Query.first()\<close>: the first row of the result, or \<^verbatim>\<open>None\<close>.\<close>

definition first :: "'a list \<Rightarrow> 'a option" where
  "first rows = (case rows of [] \<Rightarrow> None | r # _ \<Rightarrow> Some r)"

text \<open>The key an autoincrementing primary key assigns to an inserted row.\<close>

definition next_id :: "int list \<Rightarrow> int" where
  "next_id ids = fold max ids 0 + 1"


section \<open>Contacts repository (src/repository/contacts.py)\<close>

text \<open>
  \<^verbatim>\<open>db.query(Contacts).filter(Contacts.user_id == user.id).offset(skip).limit(limit).all()\<close>,
  for \<open>skip\<close> and \<open>limit\<close> that are not negative (what a negative one does depends on
  the database engine).
\<close>

definition get_contacts :: "nat \<Rightarrow> nat \<Rightarrow> User \<Rightarrow> Session \<Rightarrow> Contacts list" where
  "get_contacts skip limit user db =
     take limit (drop skip (filter (\<lambda>c. user_id c = Some (User.id user)) (contacts db)))"

text \<open>
  \<^verbatim>\<open>db.query(Contacts).filter(and_(Contacts.id == contact_id,
  Contacts.user_id == user.id)).first()\<close>
\<close>

definition get_contact :: "int \<Rightarrow> User \<Rightarrow> Session \<Rightarrow> Contacts option" where
  "get_contact contact_id user db =
     first (filter (\<lambda>c. Contacts.id c = contact_id \<and> user_id c = Some (User.id user))
              (contacts db))"

text \<open>
  The row that \<^verbatim>\<open>Contacts(**body.dict(), user_id=user.id)\<close> inserts, under the key
  \<open>new_id\<close> the table assigns: the five fields of the body and the owner are set,
  \<^verbatim>\<open>done\<close> takes its column default, and nothing sets \<^verbatim>\<open>description\<close> or
  \<^verbatim>\<open>created_at\<close>.
\<close>

definition Contacts_init :: "ContactsModel \<Rightarrow> int \<Rightarrow> int \<Rightarrow> Contacts" where
  "Contacts_init body uid new_id =
     \<lparr>Contacts.id = new_id,
      first_name = ContactsModel.first_name body,
      last_name = ContactsModel.last_name body,
      phone_number = ContactsModel.phone_number body,
      born_date = ContactsModel.born_date body,
      email = ContactsModel.email body,
      description = None,
      created_at = None,
      done = False,
      user_id = Some uid\<rparr>"

text \<open>
  \<^verbatim>\<open>db.add(contact); db.commit()\<close>: the INSERT. It fails when the row breaks a
  constraint of the table: a \<^verbatim>\<open>nullable=False\<close> column that is \<open>None\<close> (of the
  columns that can be \<open>None\<close> here only \<^verbatim>\<open>created_at\<close> is declared so), or a primary
  key already present.
\<close>

definition insert_contact :: "Contacts \<Rightarrow> Session \<Rightarrow> error + Session" where
  "insert_contact row db =
     (if Contacts.created_at row = None \<or> Contacts.id row \<in> set (map Contacts.id (contacts db))
      then Inl IntegrityError
      else Inr (db\<lparr>contacts := contacts db @ [row]\<rparr>))"

definition create_contact ::
  "ContactsModel \<Rightarrow> User \<Rightarrow> Session \<Rightarrow> (error + Contacts) \<times> Session" where
  "create_contact body user db =
     (let contact = Contacts_init body (User.id user) (next_id (map Contacts.id (contacts db)))
      in case insert_contact contact db of
           Inl e \<Rightarrow> (Inl e, db)
         | Inr db' \<Rightarrow> (Inr contact, db'))"

text \<open>
  The three mutations look the contact up as \<open>get_contact\<close> does and return what they
  found. A commit writes the changed attributes of the object to the row with its
  primary key; \<^verbatim>\<open>db.delete\<close> removes the row with its primary key.
\<close>

definition update_contact ::
  "int \<Rightarrow> ContactsModel \<Rightarrow> User \<Rightarrow> Session \<Rightarrow> Contacts option \<times> Session" where
  "update_contact contact_id body user db =
     (case get_contact contact_id user db of
        None \<Rightarrow> (None, db)
      | Some contact \<Rightarrow>
          (let upd = (\<lambda>r. r\<lparr>Contacts.first_name := ContactsModel.first_name body,
                              Contacts.last_name := ContactsModel.last_name body,
                              Contacts.email := ContactsModel.email body,
                              Contacts.phone_number := ContactsModel.phone_number body,
                              Contacts.born_date := ContactsModel.born_date body\<rparr>)
           in (Some (upd contact),
               db\<lparr>contacts :=
                    map (\<lambda>r. if Contacts.id r = Contacts.id contact then upd r else r)
                      (contacts db)\<rparr>)))"

definition remove_contact :: "int \<Rightarrow> User \<Rightarrow> Session \<Rightarrow> Contacts option \<times> Session" where
  "remove_contact contact_id user db =
     (case get_contact contact_id user db of
        None \<Rightarrow> (None, db)
      | Some contact \<Rightarrow>
          (Some contact,
           db\<lparr>contacts := filter (\<lambda>r. Contacts.id r \<noteq> Contacts.id contact) (contacts db)\<rparr>))"

definition update_status_contact ::
  "int \<Rightarrow> ContactsStatusUpdate \<Rightarrow> User \<Rightarrow> Session \<Rightarrow> Contacts option \<times> Session" where
  "update_status_contact contact_id body user db =
     (case get_contact contact_id user db of
        None \<Rightarrow> (None, db)
      | Some contact \<Rightarrow>
          (let upd = (\<lambda>r. r\<lparr>Contacts.done := ContactsStatusUpdate.done body\<rparr>)
           in (Some (upd contact),
               db\<lparr>contacts :=
                    map (\<lambda>r. if Contacts.id r = Contacts.id contact then upd r else r)
                      (contacts db)\<rparr>)))"

subsection \<open>Search\<close>

text \<open>
  \<^verbatim>\<open>column.ilike(pattern)\<close> is SQL's case-insensitive \<^verbatim>\<open>LIKE\<close>: in the pattern
  \<^verbatim>\<open>%\<close> stands for any run of characters (the empty one too), \<^verbatim>\<open>_\<close> for any single
  character, and every other character for itself. Case is folded on the ASCII
  letters. (An escape character is engine specific and is not part of this model.)
\<close>

definition lower_char :: "char \<Rightarrow> char" where
  "lower_char c =
     (case map_of (zip ''ABCDEFGHIJKLMNOPQRSTUVWXYZ'' ''abcdefghijklmnopqrstuvwxyz'') c of
        None \<Rightarrow> c
      | Some l \<Rightarrow> l)"

definition lower :: "string \<Rightarrow> string" where
  "lower s = map lower_char s"

fun like :: "string \<Rightarrow> string \<Rightarrow> bool" where
  "like [] s = (s = [])"
| "like (p # ps) [] = (p = CHR ''%'' \<and> like ps [])"
| "like (p # ps) (c # cs) =
     (if p = CHR ''%'' then like ps (c # cs) \<or> like (p # ps) cs
      else (p = CHR ''_'' \<or> p = c) \<and> like ps cs)"

definition ilike :: "string \<Rightarrow> string \<Rightarrow> bool" where
  "ilike s pattern = like (lower pattern) (lower s)"

text \<open>
  \<^verbatim>\<open>if not query: return []\<close> holds for \<^verbatim>\<open>None\<close> and for the empty string. Otherwise
  the owner's rows are filtered by the pattern \<^verbatim>\<open>f"%{query}%"\<close> on any of the three
  columns.
\<close>

definition search_contacts :: "Session \<Rightarrow> string option \<Rightarrow> User \<Rightarrow> Contacts list" where
  "search_contacts db query user =
     (case query of
        None \<Rightarrow> []
      | Some q \<Rightarrow>
          if q = [] then []
          else filter (\<lambda>c. ilike (Contacts.first_name c) (''%'' @ q @ ''%'') \<or>
                            ilike (Contacts.last_name c) (''%'' @ q @ ''%'') \<or>
                            ilike (Contacts.email c) (''%'' @ q @ ''%''))
                 (filter (\<lambda>c. user_id c = Some (User.id user)) (contacts db)))"

text \<open>
  The containment the specification speaks of: \<open>q\<close> occurs in \<open>s\<close> as a contiguous
  substring, case folded.
\<close>

definition icontains :: "string \<Rightarrow> string \<Rightarrow> bool" where
  "icontains s q = sublist (lower q) (lower s)"


subsection \<open>Upcoming birthdays\<close>

text \<open>
  \<open>today\<close> is the value of \<^verbatim>\<open>date.today()\<close>. \<^verbatim>\<open>today + timedelta(days=7)\<close> is
  computed first and may raise. The query applies \<^verbatim>\<open>extract\<close> to \<^verbatim>\<open>born_date\<close>, a
  string column: PostgreSQL rejects the query, whatever the table holds; SQLite reads
  the month and the day off the ISO text, and the three conditions of the filter compare
  them with \<^verbatim>\<open>today.month\<close>, \<^verbatim>\<open>today.day\<close> and \<^verbatim>\<open>next_week.day\<close>.
\<close>

definition get_contacts_with_birthdays ::
  "date \<Rightarrow> Session \<Rightarrow> User \<Rightarrow> error + Contacts list" where
  "get_contacts_with_birthdays today db user =
     (case date_add_days today 7 of
        Inl e \<Rightarrow> Inl e
      | Inr next_week \<Rightarrow>
          (case dialect db of
             PostgreSQL \<Rightarrow> Inl ProgrammingError
           | SQLite \<Rightarrow>
               Inr (filter (\<lambda>c. month (Contacts.born_date c) = month today \<and>
                                 day (Contacts.born_date c) \<ge> day today \<and>
                                 day (Contacts.born_date c) \<le> day next_week)
                      (filter (\<lambda>c. user_id c = Some (User.id user)) (contacts db)))))"


section \<open>Users repository (src/repository/users.py)\<close>

definition get_user_by_email :: "string \<Rightarrow> Session \<Rightarrow> User option" where
  "get_user_by_email email' db = first (filter (\<lambda>u. User.email u = email') (users db))"

text \<open>
  What an engine stores for a string assigned to a column declared \<^verbatim>\<open>String(n)\<close>.
  SQLite does not look at the declared length. PostgreSQL stores a string of at most
  \<open>n\<close> characters as it is, cuts one whose excess characters are all spaces down to
  \<open>n\<close> characters, and refuses any other. A string \<open>overflows\<close> its column in the
  last case.
\<close>

definition overflows :: "nat \<Rightarrow> string \<Rightarrow> bool" where
  "overflows n s = (n < length s \<and> drop n s \<noteq> replicate (length s - n) CHR '' '')"

definition too_long :: "User \<Rightarrow> bool" where
  "too_long row =
     (overflows 50 (User.username row) \<or>
      overflows 250 (User.email row) \<or>
      overflows 255 (User.password row) \<or>
      (case User.avatar row of None \<Rightarrow> False | Some a \<Rightarrow> overflows 255 a) \<or>
      (case User.refresh_token row of None \<Rightarrow> False | Some t \<Rightarrow> overflows 255 t))"

definition truncated :: "User \<Rightarrow> User" where
  "truncated row =
     row\<lparr>User.username := take 50 (User.username row),
         User.email := take 250 (User.email row),
         User.password := take 255 (User.password row),
         User.avatar := map_option (take 255) (User.avatar row),
         User.refresh_token := map_option (take 255) (User.refresh_token row)\<rparr>"

definition stored_row :: "dialect \<Rightarrow> User \<Rightarrow> error + User" where
  "stored_row engine row =
     (case engine of
        SQLite \<Rightarrow> Inr row
      | PostgreSQL \<Rightarrow> if too_long row then Inl DataError else Inr (truncated row))"

text \<open>Every string of the row is within the declared length of its column.\<close>

definition fits_columns :: "User \<Rightarrow> bool" where
  "fits_columns row =
     (length (User.username row) \<le> 50 \<and>
      length (User.email row) \<le> 250 \<and>
      length (User.password row) \<le> 255 \<and>
      (case User.avatar row of None \<Rightarrow> True | Some a \<Rightarrow> length a \<le> 255) \<and>
      (case User.refresh_token row of None \<Rightarrow> True | Some t \<Rightarrow> length t \<le> 255))"

text \<open>
  \<^verbatim>\<open>db.add(new_user); db.commit()\<close>: the INSERT into \<^verbatim>\<open>users\<close>. It fails with
  \<^verbatim>\<open>DataError\<close> when the engine refuses a string. Otherwise it fails with
  \<^verbatim>\<open>IntegrityError\<close> when the email is already stored (\<^verbatim>\<open>unique=True\<close>) or the primary
  key is already present. Otherwise the row is appended, as the engine stores it.
\<close>

definition insert_user :: "User \<Rightarrow> Session \<Rightarrow> error + User \<times> Session" where
  "insert_user row db =
     (case stored_row (dialect db) row of
        Inl e \<Rightarrow> Inl e
      | Inr r \<Rightarrow>
          if User.email r \<in> set (map User.email (users db)) \<or>
             User.id r \<in> set (map User.id (users db))
          then Inl IntegrityError
          else Inr (r, db\<lparr>users := users db @ [r]\<rparr>))"

text \<open>
  The \<^verbatim>\<open>try\<close> block of \<^verbatim>\<open>create_user\<close>. \<open>get_image\<close> stands for
  \<^verbatim>\<open>Gravatar(email).get_image()\<close>: given the email it returns an address (\<open>Inr\<close>) or
  raises an \<^verbatim>\<open>Exception\<close> (\<open>Inl\<close>), which \<^verbatim>\<open>except Exception\<close> catches and prints,
  leaving the avatar \<^verbatim>\<open>None\<close>.
\<close>

definition resolve_avatar :: "(string \<Rightarrow> 'e + string) \<Rightarrow> string \<Rightarrow> string option" where
  "resolve_avatar get_image email' =
     (case get_image email' of
        Inl e \<Rightarrow> None
      | Inr url \<Rightarrow> Some url)"

text \<open>
  The row that \<^verbatim>\<open>User(**body.dict(), avatar=avatar)\<close> inserts, under the key \<open>new_id\<close>
  the table assigns: the three fields of the body and the avatar are set,
  \<^verbatim>\<open>created_at\<close> takes \<open>now\<close>, the value of \<^verbatim>\<open>func.now()\<close> at the INSERT,
  \<^verbatim>\<open>refresh_token\<close> is not set and \<^verbatim>\<open>confirmed\<close> takes its column default.
  \<^verbatim>\<open>db.refresh(new_user)\<close> reads the row back, so \<open>create_user\<close> returns it as
  stored.
\<close>

definition User_init :: "UserModel \<Rightarrow> string option \<Rightarrow> datetime \<Rightarrow> int \<Rightarrow> User" where
  "User_init body avatar' now new_id =
     \<lparr>User.id = new_id,
      username = UserModel.username body,
      email = UserModel.email body,
      password = UserModel.password body,
      created_at = Some now,
      avatar = avatar',
      refresh_token = None,
      confirmed = False\<rparr>"

definition create_user ::
  "UserModel \<Rightarrow> (string \<Rightarrow> 'e + string) \<Rightarrow> datetime \<Rightarrow> Session \<Rightarrow> (error + User) \<times> Session" where
  "create_user body get_image now db =
     (let avatar' = resolve_avatar get_image (UserModel.email body);
          new_user = User_init body avatar' now (next_id (map User.id (users db)))
      in case insert_user new_user db of
           Inl e \<Rightarrow> (Inl e, db)
         | Inr (stored, db') \<Rightarrow> (Inr stored, db'))"

text \<open>
  \<^verbatim>\<open>user = await get_user_by_email(email, db); user.confirmed = True; db.commit()\<close>.
  There is no test of \<^verbatim>\<open>user\<close>: when the lookup returns \<^verbatim>\<open>None\<close> the assignment
  raises \<^verbatim>\<open>AttributeError\<close>.
\<close>

definition confirmed_email :: "string \<Rightarrow> Session \<Rightarrow> (error + unit) \<times> Session" where
  "confirmed_email email' db =
     (case get_user_by_email email' db of
        None \<Rightarrow> (Inl AttributeError, db)
      | Some user \<Rightarrow>
          (Inr (),
           db\<lparr>users :=
                map (\<lambda>u. if User.id u = User.id user then u\<lparr>User.confirmed := True\<rparr> else u)
                  (users db)\<rparr>))"


section \<open>Routes (src/routes/contacts.py)\<close>

text \<open>
  A route turns an absent contact into \<^verbatim>\<open>HTTPException(status_code=404)\<close>. This is
  the only not-found error of the program.
\<close>

definition read_contact :: "int \<Rightarrow> Session \<Rightarrow> User \<Rightarrow> error + Contacts" where
  "read_contact contacts_id db current_user =
     (case get_contact contacts_id current_user db of
        None \<Rightarrow> Inl (HTTPException 404)
      | Some contact \<Rightarrow> Inr contact)"

text \<open>
  The not-found class of errors the specification speaks of: the one its taxonomy maps
  to the status 404.
\<close>

definition is_not_found :: "error \<Rightarrow> bool" where
  "is_not_found e = (e = HTTPException 404)"


section \<open>Example data\<close>

text \<open>
  Two users and a contact of each, for the concrete instances below. Ann's birthday is
  the 30th of January; her address has a dot where the search below has an underscore.
\<close>

definition alice :: User where
  "alice = \<lparr>User.id = 1, username = ''alice'', email = ''alice@example.com'',
             password = ''$2b$12$aaaa'', created_at = Some 1000, avatar = None,
             refresh_token = None, confirmed = False\<rparr>"

definition bob :: User where
  "bob = \<lparr>User.id = 2, username = ''bobby'', email = ''bob@example.com'',
           password = ''$2b$12$bbbb'', created_at = Some 2000, avatar = None,
           refresh_token = None, confirmed = False\<rparr>"

definition contact_ann :: Contacts where
  "contact_ann = \<lparr>Contacts.id = 1, first_name = ''Ann'', last_name = ''Smith'',
                   phone_number = ''0501234567'',
                   born_date = \<lparr>year = 1990, month = 1, day = 30\<rparr>,
                   email = ''ann.smith@example.com'', description = None,
                   created_at = Some 3000, done = False, user_id = Some 1\<rparr>"

definition contact_tom :: Contacts where
  "contact_tom = \<lparr>Contacts.id = 2, first_name = ''Tom'', last_name = ''Jones'',
                   phone_number = ''0507654321'',
                   born_date = \<lparr>year = 1985, month = 2, day = 3\<rparr>,
                   email = ''tom@example.com'', description = None,
                   created_at = Some 4000, done = False, user_id = Some 2\<rparr>"

definition example_db :: Session where
  "example_db = \<lparr>dialect = SQLite, contacts = [contact_ann, contact_tom],
                  users = [alice, bob]\<rparr>"

definition example_db_pg :: Session where
  "example_db_pg = example_db\<lparr>dialect := PostgreSQL\<rparr>"

definition example_body :: ContactsModel where
  "example_body = \<lparr>ContactsModel.first_name = ''Eve'', last_name = ''Stone'',
                    email = ''eve@example.com'', phone_number = ''0509999999'',
                    born_date = \<lparr>year = 2000, month = 6, day = 15\<rparr>\<rparr>"

definition jan_28 :: date where
  "jan_28 = \<lparr>year = 2023, month = 1, day = 28\<rparr>"

definition feb_1 :: date where
  "feb_1 = \<lparr>year = 2023, month = 2, day = 1\<rparr>"

definition last_dec_28 :: date where
  "last_dec_28 = \<lparr>year = 9999, month = 12, day = 28\<rparr>"

definition carol_body :: UserModel where
  "carol_body = \<lparr>UserModel.username = ''carol'', email = ''carol@example.com'',
                  password = ''$2b$12$dddd''\<rparr>"

text \<open>An address of 251 characters.\<close>

definition long_email :: string where
  "long_email = replicate 239 CHR ''x'' @ ''@example.com''"

lemmas example_defs =
  alice_def bob_def contact_ann_def contact_tom_def example_db_def example_db_pg_def
  example_body_def jan_28_def feb_1_def last_dec_28_def carol_body_def


section \<open>Lookups\<close>

lemma days_after_7:
  "days_after d 7 = tomorrow (tomorrow (tomorrow (tomorrow (tomorrow (tomorrow (tomorrow d))))))"
  by (simp add: numeral_eq_Suc)

lemma first_filter_None: "first (filter P rows) = None \<longleftrightarrow> (\<forall>r\<in>set rows. \<not> P r)"
  by (induction rows) (auto simp: first_def)

lemma first_filter_SomeD: "first (filter P rows) = Some r \<Longrightarrow> r \<in> set rows \<and> P r"
  by (induction rows) (auto simp: first_def split: if_splits)

text \<open>Under a unique key, a lookup that fixes the key finds the one row that has it.\<close>

lemma first_filter_unique:
  assumes "distinct (map key rows)" "r \<in> set rows" "P r"
    and "\<And>r'. r' \<in> set rows \<Longrightarrow> P r' \<Longrightarrow> key r' = key r"
  shows "first (filter P rows) = Some r"
proof (cases "first (filter P rows)")
  case None
  with assms(2,3) show ?thesis by (simp add: first_filter_None)
next
  case (Some r')
  then have "r' \<in> set rows" "P r'" by (auto dest: first_filter_SomeD)
  with assms have "r' = r" by (metis distinct_map inj_onD)
  with Some show ?thesis by simp
qed

lemma pk_unique:
  "distinct (map Contacts.id rows) \<Longrightarrow> r \<in> set rows \<Longrightarrow> r' \<in> set rows \<Longrightarrow>
     Contacts.id r = Contacts.id r' \<Longrightarrow> r = r'"
  by (metis distinct_map inj_onD)

lemma get_contact_SomeD:
  "get_contact contact_id user db = Some c \<Longrightarrow>
     c \<in> set (contacts db) \<and> Contacts.id c = contact_id \<and> user_id c = Some (User.id user)"
  unfolding get_contact_def by (drule first_filter_SomeD) simp

lemma get_contact_None_iff:
  "get_contact contact_id user db = None \<longleftrightarrow>
     (\<forall>c\<in>set (contacts db). \<not> (Contacts.id c = contact_id \<and> user_id c = Some (User.id user)))"
  unfolding get_contact_def by (rule first_filter_None)

lemma get_contact_owned:
  assumes "distinct (map Contacts.id (contacts db))" "c \<in> set (contacts db)"
    "user_id c = Some (User.id user)"
  shows "get_contact (Contacts.id c) user db = Some c"
  unfolding get_contact_def
  by (rule first_filter_unique [where key = Contacts.id]) (use assms in auto)

lemma get_contact_other_owner:
  assumes "distinct (map Contacts.id (contacts db))" "c \<in> set (contacts db)"
    "user_id c = Some (User.id A)" "User.id B \<noteq> User.id A"
  shows "get_contact (Contacts.id c) B db = None"
proof -
  have "\<not> (Contacts.id r = Contacts.id c \<and> user_id r = Some (User.id B))"
    if "r \<in> set (contacts db)" for r
  proof
    assume h: "Contacts.id r = Contacts.id c \<and> user_id r = Some (User.id B)"
    with assms(1,2) that have "r = c" by (auto dest: pk_unique)
    with h assms(3,4) show False by simp
  qed
  then show ?thesis by (simp add: get_contact_None_iff)
qed

text \<open>Whatever a caller finds has another key than a row of another owner.\<close>

lemma foreign_row_key:
  assumes "distinct (map Contacts.id (contacts db))" "c \<in> set (contacts db)"
    "user_id c = Some (User.id A)" "User.id B \<noteq> User.id A"
    "get_contact contact_id B db = Some x"
  shows "Contacts.id c \<noteq> Contacts.id x"
proof
  assume e: "Contacts.id c = Contacts.id x"
  from assms(5) have x: "x \<in> set (contacts db)" "user_id x = Some (User.id B)"
    by (auto dest: get_contact_SomeD)
  with assms(1,2) e have "c = x" by (auto dest: pk_unique)
  with assms(3,4) x(2) show False by simp
qed

lemma map_other_kept:
  "c \<in> set rows \<Longrightarrow> key c \<noteq> k \<Longrightarrow> c \<in> set (map (\<lambda>r. if key r = k then f r else r) rows)"
  by (induction rows) auto

lemma map_replace_unique:
  assumes "distinct (map key rows)" "c \<in> set rows"
  shows "map (\<lambda>r. if key r = key c then f r else r) rows =
         map (\<lambda>r. if r = c then f c else r) rows"
proof (rule map_cong [OF refl])
  fix r assume "r \<in> set rows"
  with assms have "key r = key c \<longleftrightarrow> r = c" by (metis distinct_map inj_onD)
  then show "(if key r = key c then f r else r) = (if r = c then f c else r)" by auto
qed

lemma filter_remove_unique:
  assumes "distinct (map key rows)" "c \<in> set rows"
  shows "filter (\<lambda>r. key r \<noteq> key c) rows = filter (\<lambda>r. r \<noteq> c) rows"
proof (rule filter_cong [OF refl])
  fix r assume "r \<in> set rows"
  with assms show "(key r \<noteq> key c) = (r \<noteq> c)" by (metis distinct_map inj_onD)
qed

text \<open>
  Every operation keeps the constraints: the mutations of a contact leave the keys as
  they are, a deletion removes rows, and an INSERT that would break a constraint fails.
\<close>

lemma keeps_key:
  assumes "\<And>r. key (f r) = key r"
  shows "key \<circ> (\<lambda>r. if P r then f r else r) = key"
  by (auto simp: fun_eq_iff assms)

lemma wf_db_update_contact:
  "wf_db db \<Longrightarrow> wf_db (snd (update_contact contact_id body user db))"
  by (cases "get_contact contact_id user db")
    (simp_all add: update_contact_def wf_db_def Let_def keeps_key)

lemma wf_db_update_status_contact:
  "wf_db db \<Longrightarrow> wf_db (snd (update_status_contact contact_id body user db))"
  by (cases "get_contact contact_id user db")
    (simp_all add: update_status_contact_def wf_db_def Let_def keeps_key)

lemma wf_db_remove_contact:
  "wf_db db \<Longrightarrow> wf_db (snd (remove_contact contact_id user db))"
  by (cases "get_contact contact_id user db")
    (simp_all add: remove_contact_def wf_db_def distinct_map_filter)

lemma wf_db_create_contact:
  "wf_db db \<Longrightarrow> wf_db (snd (create_contact body user db))"
  by (simp add: create_contact_def insert_contact_def wf_db_def Let_def)

lemma wf_db_create_user:
  "wf_db db \<Longrightarrow> wf_db (snd (create_user body get_image now db))"
  by (auto simp: create_user_def insert_user_def wf_db_def Let_def split: sum.splits)

lemma wf_db_confirmed_email:
  "wf_db db \<Longrightarrow> wf_db (snd (confirmed_email email' db))"
  by (cases "get_user_by_email email' db")
    (simp_all add: confirmed_email_def wf_db_def keeps_key)

lemma wf_example_db: "wf_db example_db"
  by (simp add: wf_db_def example_defs)


section \<open>Ownership\<close>

text \<open>
  C1. Let \<open>c\<close> be a stored contact owned by \<open>A\<close>, and \<open>B\<close> a user with another id, in a
  database that respects its primary keys. Then \<open>get\<close>, \<open>update\<close>, \<open>update_status\<close> and
  \<open>delete\<close> called by \<open>B\<close> with the id of \<open>c\<close> return nothing and leave the database as it
  was. Moreover \<open>c\<close> is still stored, unchanged, after \<open>B\<close> updates, flags or deletes under
  any id at all, and no page of the list of \<open>B\<close>, nor the search of \<open>B\<close>, nor the
  birthday list of \<open>B\<close> when that call returns one, contains \<open>c\<close>.
\<close>

theorem ownership_isolation:
  assumes "wf_db db" "c \<in> set (contacts db)"
    and "user_id c = Some (User.id A)" "User.id B \<noteq> User.id A"
  shows "get_contact (Contacts.id c) B db = None
       \<and> update_contact (Contacts.id c) body B db = (None, db)
       \<and> update_status_contact (Contacts.id c) flag B db = (None, db)
       \<and> remove_contact (Contacts.id c) B db = (None, db)
       \<and> c \<in> set (contacts (snd (update_contact contact_id body B db)))
       \<and> c \<in> set (contacts (snd (update_status_contact contact_id flag B db)))
       \<and> c \<in> set (contacts (snd (remove_contact contact_id B db)))
       \<and> c \<notin> set (get_contacts skip limit B db)
       \<and> c \<notin> set (search_contacts db query B)
       \<and> (\<forall>cs. get_contacts_with_birthdays today db B = Inr cs \<longrightarrow> c \<notin> set cs)"
proof -
  from assms(1) have pk: "distinct (map Contacts.id (contacts db))"
    by (simp add: wf_db_def)
  have none: "get_contact (Contacts.id c) B db = None"
    using pk assms(2-4) by (rule get_contact_other_owner)
  have keep: "Contacts.id c \<noteq> Contacts.id x" if "get_contact contact_id B db = Some x" for x
    using pk assms(2-4) that by (rule foreign_row_key)
  have u: "c \<in> set (contacts (snd (update_contact contact_id body B db)))"
  proof (cases "get_contact contact_id B db")
    case None
    with assms(2) show ?thesis by (simp add: update_contact_def)
  next
    case (Some x)
    with assms(2) keep [OF Some] show ?thesis
      by (simp add: update_contact_def Let_def map_other_kept)
  qed
  have s: "c \<in> set (contacts (snd (update_status_contact contact_id flag B db)))"
  proof (cases "get_contact contact_id B db")
    case None
    with assms(2) show ?thesis by (simp add: update_status_contact_def)
  next
    case (Some x)
    with assms(2) keep [OF Some] show ?thesis
      by (simp add: update_status_contact_def Let_def map_other_kept)
  qed
  have r: "c \<in> set (contacts (snd (remove_contact contact_id B db)))"
  proof (cases "get_contact contact_id B db")
    case None
    with assms(2) show ?thesis by (simp add: remove_contact_def)
  next
    case (Some x)
    with assms(2) keep [OF Some] show ?thesis by (simp add: remove_contact_def)
  qed
  have l: "c \<notin> set (get_contacts skip limit B db)"
    using assms(3,4) by (auto simp: get_contacts_def dest!: in_set_takeD in_set_dropD)
  have q: "c \<notin> set (search_contacts db query B)"
    using assms(3,4) by (auto simp: search_contacts_def split: option.splits)
  have b: "\<forall>cs. get_contacts_with_birthdays today db B = Inr cs \<longrightarrow> c \<notin> set cs"
    using assms(3,4)
    by (auto simp: get_contacts_with_birthdays_def split: sum.splits dialect.splits)
  from none u s r l q b show ?thesis
    by (simp add: update_contact_def update_status_contact_def remove_contact_def)
qed

theorem ownership_isolation_witness:
  "wf_db example_db \<and> contact_ann \<in> set (contacts example_db)
   \<and> user_id contact_ann = Some (User.id alice) \<and> User.id bob \<noteq> User.id alice
   \<and> get_contact (Contacts.id contact_ann) bob example_db = None
   \<and> update_contact (Contacts.id contact_ann) example_body bob example_db = (None, example_db)
   \<and> update_status_contact (Contacts.id contact_ann) \<lparr>ContactsStatusUpdate.done = True\<rparr> bob
        example_db = (None, example_db)
   \<and> remove_contact (Contacts.id contact_ann) bob example_db = (None, example_db)
   \<and> contact_ann \<in> set (contacts (snd (update_contact 2 example_body bob example_db)))
   \<and> contact_ann \<in> set (contacts (snd (update_status_contact 2
        \<lparr>ContactsStatusUpdate.done = True\<rparr> bob example_db)))
   \<and> contact_ann \<in> set (contacts (snd (remove_contact 2 bob example_db)))
   \<and> contact_ann \<notin> set (get_contacts 0 100 bob example_db)
   \<and> contact_ann \<notin> set (search_contacts example_db (Some ''ann'') bob)
   \<and> get_contacts_with_birthdays feb_1 example_db bob = Inr [contact_tom]
   \<and> contact_ann \<notin> set [contact_tom]"
proof -
  have h: "contact_ann \<in> set (contacts example_db)"
    "user_id contact_ann = Some (User.id alice)" "User.id bob \<noteq> User.id alice"
    by (simp_all add: example_defs)
  have b: "get_contacts_with_birthdays feb_1 example_db bob = Inr [contact_tom]"
    by (simp add: get_contacts_with_birthdays_def date_add_days_def days_after_7 MAXYEAR_def
        tomorrow_def days_in_month_def is_leap_def example_defs)
  show ?thesis
    using h b wf_example_db
      ownership_isolation [OF wf_example_db h, of example_body
        "\<lparr>ContactsStatusUpdate.done = True\<rparr>" 2 0 100 "Some ''ann''" feb_1]
    by simp
qed


section \<open>Mutations\<close>

text \<open>
  C5. When no stored contact has both the given id and the caller as its owner,
  \<open>update\<close> returns nothing and the database it leaves is the one it was given.
\<close>

theorem update_contact_miss:
  assumes "\<forall>c\<in>set (contacts db).
             \<not> (Contacts.id c = contact_id \<and> user_id c = Some (User.id user))"
  shows "update_contact contact_id body user db = (None, db)"
proof -
  from assms have "get_contact contact_id user db = None"
    by (simp add: get_contact_None_iff)
  then show ?thesis by (simp add: update_contact_def)
qed

theorem update_contact_miss_witness:
  "get_contact 1 bob example_db = None
   \<and> update_contact 1 example_body bob example_db = (None, example_db)"
proof -
  have h: "\<forall>c\<in>set (contacts example_db).
             \<not> (Contacts.id c = 1 \<and> user_id c = Some (User.id bob))"
    by (simp add: example_defs)
  then have "get_contact 1 bob example_db = None"
    by (simp add: get_contact_None_iff)
  with update_contact_miss [OF h, of example_body] show ?thesis by simp
qed

text \<open>
  C6. When the contact \<open>c\<close> with the given id is the caller's, \<open>update_status\<close> returns a
  record \<open>c'\<close> whose flag is the one given and whose nine other fields are those of \<open>c\<close>;
  in the table \<open>c'\<close> stands where \<open>c\<close> stood and every other row is as it was.
\<close>

theorem update_status_frame:
  assumes "wf_db db" "c \<in> set (contacts db)"
    and "Contacts.id c = contact_id" "user_id c = Some (User.id user)"
  shows "\<exists>c'. update_status_contact contact_id body user db =
                 (Some c', db\<lparr>contacts := map (\<lambda>r. if r = c then c' else r) (contacts db)\<rparr>)
            \<and> Contacts.done c' = ContactsStatusUpdate.done body
            \<and> Contacts.id c' = Contacts.id c
            \<and> Contacts.first_name c' = Contacts.first_name c
            \<and> Contacts.last_name c' = Contacts.last_name c
            \<and> Contacts.email c' = Contacts.email c
            \<and> Contacts.phone_number c' = Contacts.phone_number c
            \<and> Contacts.born_date c' = Contacts.born_date c
            \<and> Contacts.description c' = Contacts.description c
            \<and> Contacts.created_at c' = Contacts.created_at c
            \<and> Contacts.user_id c' = Contacts.user_id c"
proof -
  from assms(1) have pk: "distinct (map Contacts.id (contacts db))"
    by (simp add: wf_db_def)
  have found: "get_contact contact_id user db = Some c"
    using get_contact_owned [OF pk assms(2,4)] assms(3) by simp
  let ?c' = "c\<lparr>Contacts.done := ContactsStatusUpdate.done body\<rparr>"
  have rows: "map (\<lambda>r. if Contacts.id r = Contacts.id c
                        then r\<lparr>Contacts.done := ContactsStatusUpdate.done body\<rparr> else r)
                (contacts db)
            = map (\<lambda>r. if r = c then ?c' else r) (contacts db)"
    using pk assms(2) by (rule map_replace_unique)
  have "update_status_contact contact_id body user db =
          (Some ?c', db\<lparr>contacts := map (\<lambda>r. if r = c then ?c' else r) (contacts db)\<rparr>)"
    using found rows by (simp add: update_status_contact_def Let_def)
  then show ?thesis by (intro exI [where x = ?c']) simp
qed

theorem update_status_frame_witness:
  "wf_db example_db \<and> contact_ann \<in> set (contacts example_db)
   \<and> Contacts.id contact_ann = 1 \<and> user_id contact_ann = Some (User.id alice)
   \<and> (\<exists>c'. update_status_contact 1 \<lparr>ContactsStatusUpdate.done = True\<rparr> alice example_db =
              (Some c', example_db\<lparr>contacts :=
                 map (\<lambda>r. if r = contact_ann then c' else r) (contacts example_db)\<rparr>)
            \<and> Contacts.done c' = ContactsStatusUpdate.done \<lparr>ContactsStatusUpdate.done = True\<rparr>
            \<and> Contacts.id c' = Contacts.id contact_ann
            \<and> Contacts.first_name c' = Contacts.first_name contact_ann
            \<and> Contacts.last_name c' = Contacts.last_name contact_ann
            \<and> Contacts.email c' = Contacts.email contact_ann
            \<and> Contacts.phone_number c' = Contacts.phone_number contact_ann
            \<and> Contacts.born_date c' = Contacts.born_date contact_ann
            \<and> Contacts.description c' = Contacts.description contact_ann
            \<and> Contacts.created_at c' = Contacts.created_at contact_ann
            \<and> Contacts.user_id c' = Contacts.user_id contact_ann)"
proof -
  have h: "contact_ann \<in> set (contacts example_db)"
    "Contacts.id contact_ann = 1" "user_id contact_ann = Some (User.id alice)"
    by (simp_all add: example_defs)
  from wf_example_db h
    update_status_frame [OF wf_example_db h, of "\<lparr>ContactsStatusUpdate.done = True\<rparr>"]
  show ?thesis by (intro conjI) assumption+
qed

text \<open>
  C7. When the contact \<open>c\<close> with the given id is the caller's, \<open>delete\<close> returns \<open>c\<close> as it
  was stored and leaves the table without it; \<open>delete\<close> again, on that database, returns
  nothing and leaves it as it is.
\<close>

theorem remove_contact_twice:
  assumes "wf_db db" "c \<in> set (contacts db)"
    and "Contacts.id c = contact_id" "user_id c = Some (User.id user)"
  shows "remove_contact contact_id user db =
           (Some c, db\<lparr>contacts := filter (\<lambda>r. r \<noteq> c) (contacts db)\<rparr>)
       \<and> remove_contact contact_id user (snd (remove_contact contact_id user db)) =
           (None, snd (remove_contact contact_id user db))"
proof -
  from assms(1) have pk: "distinct (map Contacts.id (contacts db))"
    by (simp add: wf_db_def)
  have found: "get_contact contact_id user db = Some c"
    using get_contact_owned [OF pk assms(2,4)] assms(3) by simp
  have rows: "filter (\<lambda>r. Contacts.id r \<noteq> Contacts.id c) (contacts db)
            = filter (\<lambda>r. r \<noteq> c) (contacts db)"
    using pk assms(2) by (rule filter_remove_unique)
  have one: "remove_contact contact_id user db =
               (Some c, db\<lparr>contacts := filter (\<lambda>r. r \<noteq> c) (contacts db)\<rparr>)"
    using found rows by (simp add: remove_contact_def)
  have "get_contact contact_id user
          (db\<lparr>contacts := filter (\<lambda>r. Contacts.id r \<noteq> Contacts.id c) (contacts db)\<rparr>) = None"
    using assms(3) by (simp add: get_contact_None_iff)
  then have two: "remove_contact contact_id user (snd (remove_contact contact_id user db)) =
           (None, snd (remove_contact contact_id user db))"
    using found by (simp add: remove_contact_def)
  from one two show ?thesis by simp
qed

theorem remove_contact_twice_witness:
  "wf_db example_db \<and> contact_ann \<in> set (contacts example_db)
   \<and> Contacts.id contact_ann = 1 \<and> user_id contact_ann = Some (User.id alice)
   \<and> remove_contact 1 alice example_db =
        (Some contact_ann, example_db\<lparr>contacts := [contact_tom]\<rparr>)
   \<and> remove_contact 1 alice (snd (remove_contact 1 alice example_db)) =
        (None, example_db\<lparr>contacts := [contact_tom]\<rparr>)"
proof -
  have h: "contact_ann \<in> set (contacts example_db)"
    "Contacts.id contact_ann = 1" "user_id contact_ann = Some (User.id alice)"
    by (simp_all add: example_defs)
  have rows: "filter (\<lambda>r. r \<noteq> contact_ann) (contacts example_db) = [contact_tom]"
    by (simp add: example_defs)
  note t = remove_contact_twice [OF wf_example_db h, unfolded rows]
  from t have one: "remove_contact 1 alice example_db =
      (Some contact_ann, example_db\<lparr>contacts := [contact_tom]\<rparr>)"
    by (rule conjunct1)
  then have db': "snd (remove_contact 1 alice example_db) = example_db\<lparr>contacts := [contact_tom]\<rparr>"
    by simp
  from t have two: "remove_contact 1 alice (snd (remove_contact 1 alice example_db)) =
      (None, example_db\<lparr>contacts := [contact_tom]\<rparr>)"
    unfolding db' by (rule conjunct2)
  from wf_example_db h one two show ?thesis by (intro conjI)
qed


section \<open>Upcoming birthdays\<close>


lemma days_after_within:
  "day d + n \<le> days_in_month (year d) (month d) \<Longrightarrow> days_after d n = d\<lparr>day := day d + n\<rparr>"
proof (induction n arbitrary: d)
  case 0
  then show ?case by simp
next
  case (Suc n)
  then have t: "tomorrow d = d\<lparr>day := day d + 1\<rparr>" by (simp add: tomorrow_def)
  have "days_after (tomorrow d) n = (tomorrow d)\<lparr>day := day (tomorrow d) + n\<rparr>"
    using Suc.prems by (intro Suc.IH) (simp add: t)
  then show ?case by (simp add: t)
qed




text \<open>
  While the week ahead ends within the month, the list on SQLite is the owner's
  contacts born in this month on a day from today's to today's plus seven.
\<close>

lemma birthdays_within_month:
  assumes "valid_date today" "day today + 7 \<le> days_in_month (year today) (month today)"
    and "dialect db = SQLite"
  shows "get_contacts_with_birthdays today db user =
           Inr (filter (\<lambda>c. user_id c = Some (User.id user) \<and>
                             month (Contacts.born_date c) = month today \<and>
                             day today \<le> day (Contacts.born_date c) \<and>
                             day (Contacts.born_date c) \<le> day today + 7)
                  (contacts db))"
proof -
  have "date_add_days today 7 = Inr (today\<lparr>day := day today + 7\<rparr>)"
    using assms(1,2) by (simp add: date_add_days_def days_after_within valid_date_def)
  then show ?thesis
    using assms(3)
    by (simp add: get_contacts_with_birthdays_def conj_commute conj_left_commute
        cong: conj_cong)
qed




text \<open>
  C3, at the input where the program departs from it. Today is the 28th of January
  2023. Ann, a contact of Alice, was born on the 30th of January: in this month, two
  days after today's day and within seven of it, so the claim lists her. On SQLite the
  program compares her day with that of the 4th of February and returns the empty
  list; on PostgreSQL it raises. Either way Ann is not returned.
\<close>

theorem birthdays_misses_month_end:
  "valid_date jan_28
   \<and> contact_ann \<in> set (contacts example_db)
   \<and> user_id contact_ann = Some (User.id alice)
   \<and> month (Contacts.born_date contact_ann) = month jan_28
   \<and> day (Contacts.born_date contact_ann) = day jan_28 + 2
   \<and> day jan_28 \<le> day (Contacts.born_date contact_ann)
   \<and> day (Contacts.born_date contact_ann) \<le> day jan_28 + 7
   \<and> date_add_days jan_28 7 = Inr \<lparr>year = 2023, month = 2, day = 4\<rparr>
   \<and> get_contacts_with_birthdays jan_28 example_db alice = Inr []
   \<and> get_contacts_with_birthdays jan_28 example_db_pg alice = Inl ProgrammingError"
  by (simp add: get_contacts_with_birthdays_def date_add_days_def days_after_7 MAXYEAR_def
      example_defs valid_date_def tomorrow_def days_in_month_def is_leap_def)


section \<open>Creating a contact\<close>

text \<open>
  C2, at every input. The record that \<open>create\<close> builds has no creation time, and the
  column forbids that: the commit is refused, nothing is stored and the caller gets the
  error.
\<close>

theorem create_contact_fails:
  "Contacts.created_at (Contacts_init body (User.id user) new_id) = None
   \<and> create_contact body user db = (Inl IntegrityError, db)"
  by (simp add: create_contact_def insert_contact_def Contacts_init_def)


section \<open>Search\<close>

lemma search_contacts_empty:
  "search_contacts db None user = []" "search_contacts db (Some []) user = []"
  by (simp_all add: search_contacts_def)

lemma like_percent:
  "like (CHR ''%'' # ps) s \<longleftrightarrow> (\<exists>t. suffix t s \<and> like ps t)"
proof (induction s)
  case Nil
  then show ?case by simp
next
  case (Cons c cs)
  have "like (CHR ''%'' # ps) (c # cs) \<longleftrightarrow> like ps (c # cs) \<or> like (CHR ''%'' # ps) cs"
    by simp
  also have "\<dots> \<longleftrightarrow> like ps (c # cs) \<or> (\<exists>t. suffix t cs \<and> like ps t)"
    by (simp only: Cons.IH)
  also have "\<dots> \<longleftrightarrow> (\<exists>t. suffix t (c # cs) \<and> like ps t)"
    by (auto simp: suffix_Cons)
  finally show ?case .
qed

lemma like_percent_only: "like ''%'' s"
  by (induction s) simp_all

lemma like_plain:
  assumes "CHR ''%'' \<notin> set q" "CHR ''_'' \<notin> set q"
  shows "like (q @ ''%'') t \<longleftrightarrow> prefix q t"
  using assms
proof (induction q arbitrary: t)
  case Nil
  then show ?case by (simp add: like_percent_only)
next
  case (Cons p ps)
  then show ?case by (cases t) auto
qed

lemma like_contains:
  assumes "CHR ''%'' \<notin> set q" "CHR ''_'' \<notin> set q"
  shows "like (''%'' @ q @ ''%'') s \<longleftrightarrow> sublist q s"
proof -
  have "like (''%'' @ q @ ''%'') s \<longleftrightarrow> (\<exists>t. suffix t s \<and> like (q @ ''%'') t)"
    by (simp add: like_percent)
  also have "\<dots> \<longleftrightarrow> (\<exists>t. suffix t s \<and> prefix q t)"
    by (simp only: like_plain [OF assms])
  also have "\<dots> \<longleftrightarrow> sublist q s"
    by (auto simp: sublist_def suffix_def prefix_def)
  finally show ?thesis .
qed

lemma lower_char_wildcard:
  "lower_char c = CHR ''%'' \<longleftrightarrow> c = CHR ''%''" "lower_char c = CHR ''_'' \<longleftrightarrow> c = CHR ''_''"
  by (auto simp: lower_char_def split: option.splits if_splits)

lemma lower_wildcard_free:
  assumes "w = CHR ''%'' \<or> w = CHR ''_''" "w \<notin> set q"
  shows "w \<notin> set (lower q)"
proof
  assume "w \<in> set (lower q)"
  then have "w \<in> lower_char ` set q" by (simp add: lower_def)
  then obtain c where c: "c \<in> set q" "w = lower_char c" by (rule imageE)
  from assms(1) c(2) have "c = w" using lower_char_wildcard [of c] by metis
  with c(1) assms(2) show False by simp
qed

lemma ilike_contains:
  assumes "CHR ''%'' \<notin> set q" "CHR ''_'' \<notin> set q"
  shows "ilike s (CHR ''%'' # q @ ''%'') \<longleftrightarrow> icontains s q"
proof -
  have "lower (CHR ''%'' # q @ ''%'') = ''%'' @ lower q @ ''%''"
    by (simp add: lower_def lower_char_def)
  then show ?thesis
    using like_contains [of "lower q" "lower s"] assms
    by (simp add: ilike_def icontains_def lower_wildcard_free)
qed

text \<open>
  For a query without \<^verbatim>\<open>%\<close> and \<^verbatim>\<open>_\<close> the search is the containment test on the
  owner's contacts. (The backslash, an escape character of the pattern on PostgreSQL,
  is excluded with them.)
\<close>

lemma search_contacts_plain:
  assumes "q \<noteq> []" "CHR ''%'' \<notin> set q" "CHR ''_'' \<notin> set q" "CHR 0x5C \<notin> set q"
  shows "search_contacts db (Some q) user =
           filter (\<lambda>c. user_id c = Some (User.id user) \<and>
                        (icontains (Contacts.first_name c) q \<or>
                         icontains (Contacts.last_name c) q \<or>
                         icontains (Contacts.email c) q))
             (contacts db)"
  using assms(1)
  by (simp add: search_contacts_def ilike_contains [OF assms(2,3)] conj_commute)

lemma sublist_eval:
  "sublist (x # xs) (y # ys) \<longleftrightarrow> prefix (x # xs) (y # ys) \<or> sublist (x # xs) ys"
  by (rule sublist_Cons_right)

text \<open>
  C4, at the input where the program departs from it. Alice searches for
  \<^verbatim>\<open>ann_smith\<close>. None of Ann's first name, last name and address contains that
  string, in any case; the program returns Ann, because the underscore of the pattern
  matches the dot of \<^verbatim>\<open>ann.smith@example.com\<close>.
\<close>

theorem search_treats_underscore_as_wildcard:
  "search_contacts example_db (Some ''ann_smith'') alice = [contact_ann]
   \<and> \<not> icontains (Contacts.first_name contact_ann) ''ann_smith''
   \<and> \<not> icontains (Contacts.last_name contact_ann) ''ann_smith''
   \<and> \<not> icontains (Contacts.email contact_ann) ''ann_smith''"
  by (simp add: search_contacts_def icontains_def ilike_def lower_def lower_char_def
      example_defs sublist_eval)


section \<open>Users\<close>

lemma next_id_fresh: "next_id ids \<notin> set ids"
proof
  assume "next_id ids \<in> set ids"
  then have "next_id ids \<le> Max (set (0 # ids))" by simp
  also have "\<dots> = fold max ids 0" by (rule Max.set_eq_fold)
  finally show False by (simp add: next_id_def)
qed

lemma get_user_by_email_None_iff:
  "get_user_by_email email' db = None \<longleftrightarrow> (\<forall>u\<in>set (users db). User.email u \<noteq> email')"
  unfolding get_user_by_email_def by (simp add: first_filter_None)

lemma get_user_by_email_unique:
  assumes "distinct (map User.email (users db))" "u \<in> set (users db)"
  shows "get_user_by_email (User.email u) db = Some u"
  unfolding get_user_by_email_def
  by (rule first_filter_unique [where key = User.email]) (use assms in auto)

text \<open>A contact the caller cannot see is a not-found error of the route.\<close>

lemma read_contact_not_found:
  "get_contact contacts_id current_user db = None \<Longrightarrow>
     \<exists>e. read_contact contacts_id db current_user = Inl e \<and> is_not_found e"
  by (simp add: read_contact_def is_not_found_def)

text \<open>
  C8 as stated fails: no user has the address \<^verbatim>\<open>nobody@example.com\<close>, and the error
  that \<open>confirm_email\<close> raises for it is \<^verbatim>\<open>AttributeError\<close>, which is not a not-found
  error.
\<close>

theorem confirmed_email_no_not_found:
  "get_user_by_email ''nobody@example.com'' example_db = None
   \<and> confirmed_email ''nobody@example.com'' example_db = (Inl AttributeError, example_db)
   \<and> \<not> is_not_found AttributeError"
  by (simp add: confirmed_email_def get_user_by_email_def first_def is_not_found_def
      example_defs)

text \<open>
  C8, amended. When no stored user has the address, \<open>confirm_email\<close> fails with
  \<^verbatim>\<open>AttributeError\<close> and the database is as it was. When the user \<open>u\<close> has it, in a
  database that respects its keys and the uniqueness of addresses, the call succeeds
  and the table of users has \<open>u\<close> with \<^verbatim>\<open>confirmed\<close> true where \<open>u\<close> stood, every
  other row as it was.
\<close>

theorem confirmed_email_cases:
  "((\<forall>u\<in>set (users db). User.email u \<noteq> email') \<longrightarrow>
      confirmed_email email' db = (Inl AttributeError, db))
   \<and> (\<forall>u. wf_db db \<and> u \<in> set (users db) \<and> User.email u = email' \<longrightarrow>
        confirmed_email email' db =
          (Inr (), db\<lparr>users := map (\<lambda>r. if r = u then u\<lparr>User.confirmed := True\<rparr> else r)
                                 (users db)\<rparr>))"
proof (intro conjI impI allI)
  assume "\<forall>u\<in>set (users db). User.email u \<noteq> email'"
  then have "get_user_by_email email' db = None"
    by (simp add: get_user_by_email_None_iff)
  then show "confirmed_email email' db = (Inl AttributeError, db)"
    by (simp add: confirmed_email_def)
next
  fix u
  assume h: "wf_db db \<and> u \<in> set (users db) \<and> User.email u = email'"
  then have pk: "distinct (map User.id (users db))"
    and un: "distinct (map User.email (users db))"
    by (simp_all add: wf_db_def)
  from h have u: "u \<in> set (users db)" and e: "User.email u = email'" by simp_all
  have found: "get_user_by_email email' db = Some u"
    using get_user_by_email_unique [OF un u] e by simp
  have rows: "map (\<lambda>r. if User.id r = User.id u then r\<lparr>User.confirmed := True\<rparr> else r)
                (users db)
            = map (\<lambda>r. if r = u then u\<lparr>User.confirmed := True\<rparr> else r) (users db)"
    using pk u by (rule map_replace_unique)
  show "confirmed_email email' db =
          (Inr (), db\<lparr>users := map (\<lambda>r. if r = u then u\<lparr>User.confirmed := True\<rparr> else r)
                                 (users db)\<rparr>)"
    using found rows by (simp add: confirmed_email_def)
qed

theorem confirmed_email_cases_witness:
  "confirmed_email ''nobody@example.com'' example_db = (Inl AttributeError, example_db)
   \<and> confirmed_email ''bob@example.com'' example_db =
       (Inr (), example_db\<lparr>users := [alice, bob\<lparr>User.confirmed := True\<rparr>]\<rparr>)"
proof -
  have a: "\<forall>u\<in>set (users example_db). User.email u \<noteq> ''nobody@example.com''"
    by (simp add: example_defs)
  have b: "wf_db example_db \<and> bob \<in> set (users example_db)
           \<and> User.email bob = ''bob@example.com''"
    using wf_example_db by (simp add: example_defs)
  have rows: "map (\<lambda>r. if r = bob then bob\<lparr>User.confirmed := True\<rparr> else r)
                (users example_db)
            = [alice, bob\<lparr>User.confirmed := True\<rparr>]"
    by (simp add: example_defs)
  note t = confirmed_email_cases [of example_db]
  from t [of "''nobody@example.com''"] a
  have one: "confirmed_email ''nobody@example.com'' example_db =
      (Inl AttributeError, example_db)"
    by blast
  from t [of "''bob@example.com''"] b
  have "confirmed_email ''bob@example.com'' example_db =
       (Inr (), example_db\<lparr>users :=
          map (\<lambda>r. if r = bob then bob\<lparr>User.confirmed := True\<rparr> else r)
            (users example_db)\<rparr>)"
    by blast
  with one rows show ?thesis by simp
qed

lemma long_email_length: "length long_email = 251"
  by (simp add: long_email_def)

lemma long_email_tail: "drop 250 long_email = ''m''"
  by (simp add: long_email_def)

lemma fits_columns_stored:
  assumes "fits_columns row"
  shows "stored_row engine row = Inr row"
proof -
  have "\<not> too_long row"
    using assms
    by (auto simp: fits_columns_def too_long_def overflows_def split: option.splits)
  moreover have "truncated row = row"
    using assms
    by (cases "User.avatar row"; cases "User.refresh_token row")
      (simp_all add: fits_columns_def truncated_def)
  ultimately show ?thesis by (cases engine) (simp_all add: stored_row_def)
qed

lemma long_email_fresh:
  "long_email \<noteq> ''alice@example.com''" "long_email \<noteq> ''bob@example.com''"
proof -
  have "length s \<noteq> 251 \<Longrightarrow> long_email \<noteq> s" for s
    using long_email_length by auto
  then show "long_email \<noteq> ''alice@example.com''" "long_email \<noteq> ''bob@example.com''"
    by simp_all
qed

text \<open>
  C9 as stated fails. Bob is stored with the address \<^verbatim>\<open>bob@example.com\<close>: creating a
  user with that address fails, although the avatar lookup succeeds, and stores nothing.
  On PostgreSQL, creating a user whose address has 251 characters fails as well.
\<close>

theorem create_user_duplicate_email:
  "bob \<in> set (users example_db)
   \<and> User.email bob = ''bob@example.com''
   \<and> create_user \<lparr>UserModel.username = ''robert'', email = ''bob@example.com'',
                    password = ''$2b$12$cccc''\<rparr>
        (\<lambda>e. Inr ''https://www.gravatar.com/avatar/0'' :: unit + string) 5000 example_db
      = (Inl IntegrityError, example_db)
   \<and> length long_email = 251
   \<and> long_email \<notin> set (map User.email (users example_db_pg))
   \<and> create_user \<lparr>UserModel.username = ''robert'', email = long_email,
                    password = ''$2b$12$cccc''\<rparr>
        (\<lambda>e. Inr ''https://www.gravatar.com/avatar/0'' :: unit + string) 5000 example_db_pg
      = (Inl DataError, example_db_pg)"
  by (simp add: create_user_def insert_user_def stored_row_def User_init_def
      resolve_avatar_def too_long_def overflows_def long_email_length long_email_tail
      long_email_fresh example_defs)

text \<open>
  C9, amended. Let \<open>u\<close> be the user that \<open>create\<close> builds: the three fields of the body,
  \<^verbatim>\<open>confirmed\<close> false, no refresh token, a key no stored user has, and as avatar the
  address the lookup returned, or none when the lookup raised. Whatever the lookup does:
  on PostgreSQL, when a string of \<open>u\<close> overflows its column, \<open>create\<close> fails with
  \<^verbatim>\<open>DataError\<close> and stores nothing; on SQLite, or when every string of \<open>u\<close> is within
  its column, \<open>create\<close> fails with \<^verbatim>\<open>IntegrityError\<close> and stores nothing when a stored
  user has the address of the body, and otherwise succeeds, appends \<open>u\<close> to the stored
  users and returns it.
\<close>

theorem create_user_avatar_tolerant:
  "(let u = User_init body
              (case get_image (UserModel.email body) of Inl e \<Rightarrow> None | Inr url \<Rightarrow> Some url)
              now (next_id (map User.id (users db)))
    in User.username u = UserModel.username body
       \<and> User.email u = UserModel.email body
       \<and> User.password u = UserModel.password body
       \<and> User.confirmed u = False
       \<and> User.refresh_token u = None
       \<and> User.avatar u = (case get_image (UserModel.email body) of
                            Inl e \<Rightarrow> None | Inr url \<Rightarrow> Some url)
       \<and> User.id u \<notin> set (map User.id (users db))
       \<and> (dialect db = PostgreSQL \<and> too_long u \<longrightarrow>
            create_user body get_image now db = (Inl DataError, db))
       \<and> ((dialect db = SQLite \<or> fits_columns u)
            \<and> UserModel.email body \<in> set (map User.email (users db)) \<longrightarrow>
            create_user body get_image now db = (Inl IntegrityError, db))
       \<and> ((dialect db = SQLite \<or> fits_columns u)
            \<and> UserModel.email body \<notin> set (map User.email (users db)) \<longrightarrow>
            create_user body get_image now db = (Inr u, db\<lparr>users := users db @ [u]\<rparr>)))"
proof -
  define u where "u = User_init body
      (case get_image (UserModel.email body) of Inl e \<Rightarrow> None | Inr url \<Rightarrow> Some url)
      now (next_id (map User.id (users db)))"
  have fields: "User.username u = UserModel.username body"
    "User.email u = UserModel.email body" "User.password u = UserModel.password body"
    "User.confirmed u = False" "User.refresh_token u = None"
    "User.avatar u = (case get_image (UserModel.email body) of
                        Inl e \<Rightarrow> None | Inr url \<Rightarrow> Some url)"
    by (simp_all add: u_def User_init_def)
  have "User.id u = next_id (map User.id (users db))"
    by (simp add: u_def User_init_def)
  then have fresh: "User.id u \<notin> set (map User.id (users db))"
    by (simp only: next_id_fresh not_False_eq_True)
  have run: "create_user body get_image now db =
      (case insert_user u db of
         Inl e \<Rightarrow> (Inl e, db) | Inr (stored, db') \<Rightarrow> (Inr stored, db'))"
    unfolding u_def by (simp add: create_user_def resolve_avatar_def Let_def)
  have long: "create_user body get_image now db = (Inl DataError, db)"
    if "dialect db = PostgreSQL \<and> too_long u"
    using that by (simp add: run insert_user_def stored_row_def)
  have stored: "stored_row (dialect db) u = Inr u" if "dialect db = SQLite \<or> fits_columns u"
    using that by (auto simp: fits_columns_stored) (simp add: stored_row_def)
  have dup: "create_user body get_image now db = (Inl IntegrityError, db)"
    if "(dialect db = SQLite \<or> fits_columns u)
        \<and> UserModel.email body \<in> set (map User.email (users db))"
    using that fields(2) stored by (simp add: run insert_user_def)
  have new: "create_user body get_image now db = (Inr u, db\<lparr>users := users db @ [u]\<rparr>)"
    if "(dialect db = SQLite \<or> fits_columns u)
        \<and> UserModel.email body \<notin> set (map User.email (users db))"
    using that fields(2) fresh stored by (simp add: run insert_user_def)
  from fields fresh long dup new show ?thesis
    unfolding Let_def u_def [symmetric] by (intro conjI impI)
qed

theorem create_user_avatar_tolerant_witness:
  "create_user carol_body (\<lambda>e. Inl () :: unit + string) 5000 example_db =
     (Inr (User_init carol_body None 5000 3),
      example_db\<lparr>users := [alice, bob, User_init carol_body None 5000 3]\<rparr>)
   \<and> create_user carol_body (\<lambda>e. Inr ''https://www.gravatar.com/avatar/0'' :: unit + string)
        5000 example_db_pg =
     (Inr (User_init carol_body (Some ''https://www.gravatar.com/avatar/0'') 5000 3),
      example_db_pg\<lparr>users :=
        [alice, bob, User_init carol_body (Some ''https://www.gravatar.com/avatar/0'') 5000 3]\<rparr>)
   \<and> create_user (carol_body\<lparr>UserModel.email := ''alice@example.com''\<rparr>)
        (\<lambda>e. Inl () :: unit + string) 5000 example_db = (Inl IntegrityError, example_db)
   \<and> create_user (carol_body\<lparr>UserModel.email := long_email\<rparr>)
        (\<lambda>e. Inl () :: unit + string) 5000 example_db_pg = (Inl DataError, example_db_pg)"
proof -
  note ev = Let_def example_defs User_init_def too_long_def overflows_def fits_columns_def
    next_id_def long_email_length long_email_tail
  have one: "create_user carol_body (\<lambda>e. Inl () :: unit + string) 5000 example_db =
     (Inr (User_init carol_body None 5000 3),
      example_db\<lparr>users := [alice, bob, User_init carol_body None 5000 3]\<rparr>)"
    using create_user_avatar_tolerant
      [of carol_body "\<lambda>e. Inl () :: unit + string" 5000 example_db]
    by (simp add: ev)
  have two: "create_user carol_body
        (\<lambda>e. Inr ''https://www.gravatar.com/avatar/0'' :: unit + string) 5000 example_db_pg =
     (Inr (User_init carol_body (Some ''https://www.gravatar.com/avatar/0'') 5000 3),
      example_db_pg\<lparr>users :=
        [alice, bob, User_init carol_body (Some ''https://www.gravatar.com/avatar/0'') 5000 3]\<rparr>)"
    using create_user_avatar_tolerant
      [of carol_body "\<lambda>e. Inr ''https://www.gravatar.com/avatar/0'' :: unit + string" 5000
        example_db_pg]
    by (simp add: ev)
  have three: "create_user (carol_body\<lparr>UserModel.email := ''alice@example.com''\<rparr>)
        (\<lambda>e. Inl () :: unit + string) 5000 example_db = (Inl IntegrityError, example_db)"
    using create_user_avatar_tolerant
      [of "carol_body\<lparr>UserModel.email := ''alice@example.com''\<rparr>"
        "\<lambda>e. Inl () :: unit + string" 5000 example_db]
    by (simp add: ev)
  have four: "create_user (carol_body\<lparr>UserModel.email := long_email\<rparr>)
        (\<lambda>e. Inl () :: unit + string) 5000 example_db_pg = (Inl DataError, example_db_pg)"
    using create_user_avatar_tolerant
      [of "carol_body\<lparr>UserModel.email := long_email\<rparr>"
        "\<lambda>e. Inl () :: unit + string" 5000 example_db_pg]
    by (simp add: ev)
  from one two three four show ?thesis by (intro conjI)
qed

end
